theory Spec2Isabelle
  imports Main "HOL-Library.Word" "HOL-Library.Sublist"
begin

section \<open>Values, errors and collaborators\<close>

text \<open>
  The asset-pack unpacker of \<^verbatim>\<open>src/__init__.py\<close> is embedded function by function.
  Python \<^verbatim>\<open>bytes\<close> are lists of 8-bit words, Python \<^verbatim>\<open>str\<close> is \<open>string\<close>. The
  archive's payload is run through \<^verbatim>\<open>eval\<close> and never validated, so the fields of a
  pack hold whatever value the payload denotes: \<open>pyval\<close> is the universe of data
  literals (mappings in insertion order, sequences, strings, byte strings, integers,
  \<^verbatim>\<open>None\<close>).
\<close>

type_synonym byte = "8 word"
type_synonym bytes = "byte list"

datatype pyval =
    PyNone
  | PyInt int
  | PyStr string
  | PyBytes bytes
  | PyList "pyval list"
  | PyDict "(pyval \<times> pyval) list"

text \<open>
  Every exception the code can raise is a value. \<open>MissingHeaderException\<close> is the
  repository's own class (its message is a constant and is left out); the others are
  Python's built-in exceptions, with the key, attribute or path they report.
\<close>

datatype error =
    MissingHeaderException
  | KeyError string
  | TypeError
  | AttributeError string
  | ValueError
  | FileNotFoundError string
  | FileExistsError string
  | NotADirectoryError string
  | IsADirectoryError string
  | ZlibError
  | BadGzipFile
  | UnicodeDecodeError
  | EvalError

text \<open>
  The libraries the code calls and the repository does not contain are parameters:
  \<^verbatim>\<open>gzip.decompress\<close>, \<^verbatim>\<open>bytes.decode\<close> and \<^verbatim>\<open>eval\<close>. For \<^verbatim>\<open>tempfile\<close> the
  parameters are what the module finds on the platform: whether the operating
  system can create a file without a name (\<^verbatim>\<open>O_TMPFILE\<close>), the directory
  \<^verbatim>\<open>gettempdir()\<close> returns, and the random names it would try, in order.
\<close>

record collab =
  gzip_decompress :: "bytes \<Rightarrow> error + bytes"
  decode :: "bytes \<Rightarrow> error + string"
  py_eval :: "string \<Rightarrow> error + pyval"
  o_tmpfile_works :: bool
  tempdir :: string
  temp_candidates :: "string list"

section \<open>Python's string and path functions\<close>

text \<open>\<^verbatim>\<open>b'!PACKED\n'\<close>, the eight bytes of the header.\<close>

definition marker :: bytes where
  "marker = [0x21, 0x50, 0x41, 0x43, 0x4B, 0x45, 0x44, 0x0A]"

text \<open>
  \<^verbatim>\<open>s.replace(old, new)\<close>: scan from the left, replace each occurrence found and go on
  behind it (occurrences do not overlap). With an empty \<open>old\<close> Python puts \<open>new\<close>
  before every element and at the end.
\<close>

function replace :: "'a list \<Rightarrow> 'a list \<Rightarrow> 'a list \<Rightarrow> 'a list" where
  "replace [] old new = (if old = [] then new else [])"
| "replace (x # xs) old new =
     (if old = [] then new @ x # replace xs old new
      else if prefix old (x # xs) then new @ replace (drop (length old) (x # xs)) old new
      else x # replace xs old new)"
  by pat_completeness auto
termination
  by (relation "measure (\<lambda>(s, old, new). length s)") (auto simp: neq_Nil_conv)

text \<open>\<^verbatim>\<open>s.split(c)\<close> for a one-character separator: never an empty list.\<close>

fun str_split :: "char \<Rightarrow> string \<Rightarrow> string list" where
  "str_split c [] = [[]]"
| "str_split c (x # xs) =
     (if x = c then [] # str_split c xs
      else (case str_split c xs of [] \<Rightarrow> [[x]] | w # ws \<Rightarrow> (x # w) # ws))"

text \<open>
  \<^verbatim>\<open>posixpath.join(a, *p)\<close>: a component that starts with \<^verbatim>\<open>/\<close> discards what was
  joined before it; otherwise it is appended, after a \<^verbatim>\<open>/\<close> unless the path so far
  is empty or ends with one.
\<close>

definition join_step :: "string \<Rightarrow> string \<Rightarrow> string" where
  "join_step p b =
     (if prefix ''/'' b then b
      else if p = [] \<or> last p = CHR ''/'' then p @ b
      else p @ ''/'' @ b)"

definition join :: "string \<Rightarrow> string list \<Rightarrow> string" where
  "join a ps = foldl join_step a ps"

section \<open>The filesystem, streams and temporary files\<close>

text \<open>
  The filesystem is a collaborator. It is modelled as a map from component lists to
  nodes: \<open>resolve\<close> splits a path at \<^verbatim>\<open>/\<close>, drops empty components and \<^verbatim>\<open>.\<close>, and
  starts an absolute path with the component \<^verbatim>\<open>/\<close>. The component \<^verbatim>\<open>..\<close> is not
  interpreted, and there are no links and no permissions. The working directory
  (\<open>[]\<close>) and the root are directories.
\<close>

datatype node = Dir | File bytes

record bytesio =
  buf :: bytes
  pos :: nat

text \<open>
  A temporary file of \<^verbatim>\<open>tempfile.TemporaryFile\<close> on POSIX: it has no entry in the
  filesystem. \<open>tcreated\<close> is the path it was created under before it was unlinked,
  or \<open>None\<close> when the operating system created it without a name.
\<close>

record tempfile =
  tcreated :: "string option"
  tdata :: bytes

text \<open>
  The world outside a pack: the filesystem, the \<^verbatim>\<open>BytesIO\<close> objects that have been
  created (a handle is an index into \<open>streams\<close>), the temporary files that have been
  created, the counter of the progress bar, and the working directory as
  \<^verbatim>\<open>os.getcwd()\<close> reports it.
\<close>

record world =
  nodes :: "string list \<rightharpoonup> node"
  cwd :: string
  streams :: "bytesio list"
  temps :: "tempfile list"
  progress :: nat

definition resolve :: "string \<Rightarrow> string list" where
  "resolve p =
     (if prefix ''/'' p then [''/''] else []) @
     filter (\<lambda>s. s \<noteq> [] \<and> s \<noteq> ''.'') (str_split CHR ''/'' p)"

definition is_dir :: "world \<Rightarrow> string list \<Rightarrow> bool" where
  "is_dir w q = (q = [] \<or> q = [''/''] \<or> nodes w q = Some Dir)"

definition is_file :: "world \<Rightarrow> string list \<Rightarrow> bool" where
  "is_file w q = (case nodes w q of Some (File b) \<Rightarrow> True | _ \<Rightarrow> False)"

text \<open>
  \<^verbatim>\<open>open(p, 'rb').read()\<close>: the whole content of the file at \<open>p\<close>. A path that leads
  through a file, or names a file with a \<^verbatim>\<open>/\<close> at its end, is a
  \<^verbatim>\<open>NotADirectoryError\<close>.
\<close>

definition open_rb :: "world \<Rightarrow> string \<Rightarrow> error + bytes" where
  "open_rb w p =
     (let q = resolve p in
      if p = [] then Inl (FileNotFoundError p)
      else if list_ex (\<lambda>k. is_file w (take k q)) [1..<length q] then Inl (NotADirectoryError p)
      else if is_dir w q then Inl (IsADirectoryError p)
      else (case nodes w q of
              Some (File b) \<Rightarrow> if last p = CHR ''/'' then Inl (NotADirectoryError p) else Inr b
            | _ \<Rightarrow> Inl (FileNotFoundError p)))"

section \<open>AssetPack\<close>

text \<open>
  An \<^verbatim>\<open>AssetPack\<close> object has the attributes \<^verbatim>\<open>path\<close>, \<^verbatim>\<open>tree\<close> and \<^verbatim>\<open>dirinfo\<close>; an
  attribute that has not been assigned yet is \<open>None\<close>. The argument \<^verbatim>\<open>file\<close> of the
  constructor is a path, an open stream (what its \<^verbatim>\<open>read()\<close> returns, and its
  \<^verbatim>\<open>name\<close> attribute if it has one), or any other object. The parameter
  \<^verbatim>\<open>emulated\<close> is never read by the code and is left out.
\<close>

record stream =
  sname :: "pyval option"
  sdata :: bytes

datatype file_arg = FPath string | FStream stream | FObj pyval

record asset_pack =
  path :: "pyval option"
  tree :: "pyval option"
  dirinfo :: "pyval option"

definition new_object :: asset_pack where
  "new_object = \<lparr>path = None, tree = None, dirinfo = None\<rparr>"

text \<open>
  \<^verbatim>\<open>d[k]\<close> for a string \<open>k\<close>: a mapping answers with the value or \<^verbatim>\<open>KeyError\<close>; a
  sequence, a string or a byte string wants an integer index, \<^verbatim>\<open>None\<close> and an
  integer are not subscriptable (\<^verbatim>\<open>TypeError\<close> in each case).
\<close>

fun getitem :: "pyval \<Rightarrow> string \<Rightarrow> error + pyval" where
  "getitem (PyDict d) k =
     (case map_of d (PyStr k) of None \<Rightarrow> Inl (KeyError k) | Some v \<Rightarrow> Inr v)"
| "getitem _ k = Inl TypeError"

text \<open>
  Lines 26 to 32 of \<^verbatim>\<open>__init__\<close>: a path is stored in \<^verbatim>\<open>self.path\<close> and then opened
  and read; a stream is read and then its \<^verbatim>\<open>name\<close> is stored; any other object has
  no \<^verbatim>\<open>read\<close>.
\<close>

definition read_file_arg :: "world \<Rightarrow> file_arg \<Rightarrow> asset_pack \<Rightarrow> asset_pack \<times> (error + bytes)" where
  "read_file_arg w file self =
     (case file of
        FPath p \<Rightarrow> (self\<lparr>path := Some (PyStr p)\<rparr>, open_rb w p)
      | FStream s \<Rightarrow>
          (case sname s of
             None \<Rightarrow> (self, Inl (AttributeError ''name''))
           | Some n \<Rightarrow> (self\<lparr>path := Some n\<rparr>, Inr (sdata s)))
      | FObj v \<Rightarrow> (self, Inl (AttributeError ''read'')))"

text \<open>
  \<^verbatim>\<open>__init__\<close>, as a function from the object before the call to the object after it
  and the exception raised, if any: an exception leaves the assignments made before
  it in place.
\<close>

definition init :: "collab \<Rightarrow> world \<Rightarrow> file_arg \<Rightarrow> asset_pack \<Rightarrow> asset_pack \<times> error option" where
  "init c w file self =
     (case read_file_arg w file self of
        (self1, Inl e) \<Rightarrow> (self1, Some e)
      | (self1, Inr content) \<Rightarrow>
          if \<not> prefix marker content then (self1, Some MissingHeaderException)
          else
            (case gzip_decompress c (replace content marker []) of
               Inl e \<Rightarrow> (self1, Some e)
             | Inr raw \<Rightarrow>
                 (case decode c raw of
                    Inl e \<Rightarrow> (self1, Some e)
                  | Inr txt \<Rightarrow>
                      (case py_eval c txt of
                         Inl e \<Rightarrow> (self1, Some e)
                       | Inr dirdict \<Rightarrow>
                           (case getitem dirdict ''tree'' of
                              Inl e \<Rightarrow> (self1, Some e)
                            | Inr t \<Rightarrow>
                                (case getitem dirdict ''dirinfo'' of
                                   Inl e \<Rightarrow> (self1\<lparr>tree := Some t\<rparr>, Some e)
                                 | Inr d \<Rightarrow>
                                     (self1\<lparr>tree := Some t, dirinfo := Some d\<rparr>, None)))))))"

text \<open>\<^verbatim>\<open>AssetPack(file)\<close>: the new object, or the exception of \<^verbatim>\<open>__init__\<close>.\<close>

definition AssetPack :: "collab \<Rightarrow> world \<Rightarrow> file_arg \<Rightarrow> error + asset_pack" where
  "AssetPack c w file =
     (case init c w file new_object of
        (self, None) \<Rightarrow> Inr self
      | (self, Some e) \<Rightarrow> Inl e)"


text \<open>
  \<^verbatim>\<open>BytesIO(v)\<close> creates a new stream object over a copy of the bytes, with its
  cursor at 0, and returns its handle. \<^verbatim>\<open>BytesIO(None)\<close> is an empty stream; a
  value that is not bytes-like is refused.
\<close>

definition BytesIO :: "pyval \<Rightarrow> world \<Rightarrow> error + (nat \<times> world)" where
  "BytesIO v w =
     (case v of
        PyBytes b \<Rightarrow> Inr (length (streams w), w\<lparr>streams := streams w @ [\<lparr>buf = b, pos = 0\<rparr>]\<rparr>)
      | PyNone \<Rightarrow> Inr (length (streams w), w\<lparr>streams := streams w @ [\<lparr>buf = [], pos = 0\<rparr>]\<rparr>)
      | _ \<Rightarrow> Inl TypeError)"

text \<open>\<^verbatim>\<open>s.read()\<close>: the bytes from the cursor to the end; the cursor moves to the end.\<close>

definition stream_read :: "nat \<Rightarrow> world \<Rightarrow> error + (bytes \<times> world)" where
  "stream_read h w =
     (if h < length (streams w)
      then (let s = streams w ! h
            in Inr (drop (pos s) (buf s),
                    w\<lparr>streams := (streams w)[h := s\<lparr>pos := length (buf s)\<rparr>]\<rparr>))
      else Inl ValueError)"

definition getfile :: "asset_pack \<Rightarrow> string \<Rightarrow> world \<Rightarrow> error + (nat \<times> world)" where
  "getfile self filepath w =
     (case tree self of
        None \<Rightarrow> Inl (AttributeError ''tree'')
      | Some t \<Rightarrow>
          (case getitem t filepath of
             Inl e \<Rightarrow> Inl e
           | Inr v \<Rightarrow> BytesIO v w))"


text \<open>\<^verbatim>\<open>d.keys()\<close> and \<^verbatim>\<open>d.items()\<close> exist for a mapping only.\<close>

fun dict_items :: "pyval \<Rightarrow> error + (pyval \<times> pyval) list" where
  "dict_items (PyDict d) = Inr d"
| "dict_items _ = Inl (AttributeError ''keys'')"

definition listobjects :: "asset_pack \<Rightarrow> error + pyval list" where
  "listobjects self =
     (case tree self of
        None \<Rightarrow> Inl (AttributeError ''tree'')
      | Some t \<Rightarrow> (case dict_items t of Inl e \<Rightarrow> Inl e | Inr d \<Rightarrow> Inr (map fst d)))"

definition getDirList :: "asset_pack \<Rightarrow> error + pyval list" where
  "getDirList self =
     (case dirinfo self of
        None \<Rightarrow> Inl (AttributeError ''dirinfo'')
      | Some t \<Rightarrow> (case dict_items t of Inl e \<Rightarrow> Inl e | Inr d \<Rightarrow> Inr (map fst d)))"

text \<open>
  \<^verbatim>\<open>reload\<close> calls \<^verbatim>\<open>__init__\<close> on the object itself with \<^verbatim>\<open>self.path\<close>: a string is
  taken as a path, any other value goes down the stream branch and has no
  \<^verbatim>\<open>read\<close>.
\<close>

definition reload :: "asset_pack \<Rightarrow> collab \<Rightarrow> world \<Rightarrow> asset_pack \<times> error option" where
  "reload self c w =
     (case path self of
        None \<Rightarrow> (self, Some (AttributeError ''path''))
      | Some (PyStr p) \<Rightarrow> init c w (FPath p) self
      | Some v \<Rightarrow> init c w (FObj v) self)"

subsection \<open>Writing to the filesystem\<close>






subsection \<open>Extraction\<close>









subsection \<open>Temporary files\<close>

text \<open>
  \<^verbatim>\<open>exportToTempfile\<close>: the suffix is computed first, then the temporary file is
  created (this may fail), then the asset is looked up and
  written into it. The result is the handle of the temporary file.
\<close>






section \<open>AssetPackEmulator\<close>

text \<open>
  \<^verbatim>\<open>posixpath.normpath\<close>: empty components and \<^verbatim>\<open>.\<close> are dropped, \<^verbatim>\<open>..\<close> removes the
  component before it (at the start of a relative path it is kept, at the root it
  is dropped), two leading slashes are kept, three or more become one.
\<close>

definition norm_step :: "nat \<Rightarrow> string list \<Rightarrow> string \<Rightarrow> string list" where
  "norm_step initial_slashes new_comps seg =
     (if seg = [] \<or> seg = ''.'' then new_comps
      else if seg \<noteq> ''..'' \<or> (initial_slashes = 0 \<and> new_comps = [])
                \<or> (new_comps \<noteq> [] \<and> last new_comps = ''..'')
           then new_comps @ [seg]
      else if new_comps \<noteq> [] then butlast new_comps
      else new_comps)"

text \<open>\<^verbatim>\<open>'/'.join(comps)\<close>.\<close>

fun sep_join :: "string list \<Rightarrow> string" where
  "sep_join [] = []"
| "sep_join [x] = x"
| "sep_join (x # y # zs) = x @ ''/'' @ sep_join (y # zs)"

definition normpath :: "string \<Rightarrow> string" where
  "normpath p =
     (if p = [] then ''.''
      else
        (let initial_slashes =
               (if prefix ''/'' p
                then (if prefix ''//'' p \<and> \<not> prefix ''///'' p then 2 else 1)
                else (0::nat));
             comps = foldl (norm_step initial_slashes) [] (str_split CHR ''/'' p);
             q = replicate initial_slashes CHR ''/'' @ sep_join comps
         in if q = [] then ''.'' else q))"

text \<open>\<^verbatim>\<open>posixpath.abspath\<close>, with the working directory \<open>wd\<close>.\<close>

definition abspath :: "string \<Rightarrow> string \<Rightarrow> string" where
  "abspath wd p = normpath (if prefix ''/'' p then p else join wd [p])"

text \<open>
  \<^verbatim>\<open>posixpath.relpath(p, start)\<close>: both paths are made absolute, their common leading
  components are dropped, and one \<^verbatim>\<open>..\<close> is put in front for every component of
  \<open>start\<close> that is left. An empty \<open>p\<close> is a \<^verbatim>\<open>ValueError\<close>.
\<close>

definition relpath :: "string \<Rightarrow> string \<Rightarrow> string \<Rightarrow> error + string" where
  "relpath wd p start =
     (if p = [] then Inl ValueError
      else
        (let start_list = filter (\<lambda>x. x \<noteq> []) (str_split CHR ''/'' (abspath wd start));
             path_list = filter (\<lambda>x. x \<noteq> []) (str_split CHR ''/'' (abspath wd p));
             i = length (longest_common_prefix start_list path_list);
             rel_list = replicate (length start_list - i) ''..'' @ drop i path_list
         in (case rel_list of
               [] \<Rightarrow> Inr ''.''
             | r # rs \<Rightarrow> Inr (join r rs))))"

record asset_pack_emulator =
  basefolder :: string

text \<open>The path that \<^verbatim>\<open>AssetPackEmulator.getfile\<close> hands to \<^verbatim>\<open>open\<close>.\<close>

definition emulator_path :: "asset_pack_emulator \<Rightarrow> world \<Rightarrow> string \<Rightarrow> error + string" where
  "emulator_path em w filepath =
     (case relpath (cwd w) filepath ''resources'' of
        Inl e \<Rightarrow> Inl e
      | Inr rel \<Rightarrow> Inr (join (basefolder em) (str_split CHR ''/'' rel)))"

text \<open>
  \<^verbatim>\<open>AssetPackEmulator.getfile\<close>: the file at that path, opened for reading (a stream
  with the path as its name and the file's content to read).
\<close>

definition emulator_getfile :: "asset_pack_emulator \<Rightarrow> world \<Rightarrow> string \<Rightarrow> error + stream" where
  "emulator_getfile em w filepath =
     (case emulator_path em w filepath of
        Inl e \<Rightarrow> Inl e
      | Inr p \<Rightarrow>
          (case open_rb w p of
             Inl e \<Rightarrow> Inl e
           | Inr b \<Rightarrow> Inr \<lparr>sname = Some (PyStr p), sdata = b\<rparr>))"


text \<open>
  A plain name is a component a normalised path is made of: not empty, not \<^verbatim>\<open>.\<close> or
  \<^verbatim>\<open>..\<close>, and without a \<^verbatim>\<open>/\<close>.
\<close>

definition plain_name :: "string \<Rightarrow> bool" where
  "plain_name s = (s \<noteq> [] \<and> s \<noteq> ''.'' \<and> s \<noteq> ''..'' \<and> CHR ''/'' \<notin> set s)"



section \<open>Well-formed archives\<close>


fun plain_str :: "pyval \<Rightarrow> bool" where
  "plain_str (PyStr s) = plain_name s"
| "plain_str _ = False"




section \<open>A concrete archive\<close>

text \<open>
  The archive of the specification's scenario: \<open>sample_text\<close> is the payload,
  \<open>sample_doc\<close> the value it denotes, \<open>gz_plain\<close> the gzip stream that
  \<^verbatim>\<open>gzip.compress\<close> makes of it (79 bytes), and \<open>gz_extra\<close> a gzip stream of the same
  payload whose header carries an extra field (RFC 1952, FEXTRA) that holds the
  eight bytes of the marker. \<open>gz_extra_stripped\<close> is \<open>gz_extra\<close> without those
  eight bytes.
\<close>

definition sample_text :: string where
  "sample_text =
     ''{'' @ [CHR 0x27] @ ''tree'' @ [CHR 0x27] @ '': {'' @ [CHR 0x27] @ ''a/b.txt'' @ [CHR 0x27] @
     '': b'' @ [CHR 0x27] @ ''hi'' @ [CHR 0x27] @ ''}, '' @ [CHR 0x27] @ ''dirinfo'' @ [CHR 0x27] @
     '': {'' @ [CHR 0x27] @ ''a'' @ [CHR 0x27] @ '': {'' @ [CHR 0x27] @ ''files'' @ [CHR 0x27] @
     '': ['' @ [CHR 0x27] @ ''b.txt'' @ [CHR 0x27] @ ''], '' @ [CHR 0x27] @ ''dirs'' @ [CHR 0x27] @
     '': []}}}''"

definition sample_text_bytes :: bytes where
  "sample_text_bytes =
     [123, 39, 116, 114, 101, 101, 39, 58, 32, 123, 39, 97, 47, 98, 46, 116, 120, 116,
      39, 58, 32, 98, 39, 104, 105, 39, 125, 44, 32, 39, 100, 105, 114, 105, 110, 102,
      111, 39, 58, 32, 123, 39, 97, 39, 58, 32, 123, 39, 102, 105, 108, 101, 115, 39,
      58, 32, 91, 39, 98, 46, 116, 120, 116, 39, 93, 44, 32, 39, 100, 105, 114, 115,
      39, 58, 32, 91, 93, 125, 125, 125]"

definition sample_tree :: pyval where
  "sample_tree = PyDict [(PyStr ''a/b.txt'', PyBytes [0x68, 0x69])]"

definition sample_dirinfo :: pyval where
  "sample_dirinfo =
     PyDict [(PyStr ''a'', PyDict [(PyStr ''files'', PyList [PyStr ''b.txt'']),
                                   (PyStr ''dirs'', PyList [])])]"

definition sample_doc :: pyval where
  "sample_doc = PyDict [(PyStr ''tree'', sample_tree), (PyStr ''dirinfo'', sample_dirinfo)]"

definition gz_plain :: bytes where
  "gz_plain =
     [31, 139, 8, 0, 0, 0, 0, 0, 2, 3, 171, 86, 47, 41, 74, 77, 85, 183, 82, 168, 86,
      79, 212, 79, 210, 43, 169, 40, 1, 178, 147, 212, 51, 50, 213, 107, 117, 20, 212,
      83, 50, 139, 50, 243, 210, 242, 33, 210, 96, 50, 45, 51, 39, 181, 24, 200, 138,
      86, 135, 40, 142, 133, 168, 2, 11, 197, 214, 214, 214, 2, 0, 93, 154, 40, 29, 80,
      0, 0, 0]"

definition gz_extra :: bytes where
  "gz_extra =
     [31, 139, 8, 4, 0, 0, 0, 0, 2, 255, 12, 0, 65, 80, 8, 0, 33, 80, 65, 67, 75, 69,
      68, 10, 171, 86, 47, 41, 74, 77, 85, 183, 82, 168, 86, 79, 212, 79, 210, 43, 169,
      40, 1, 178, 147, 212, 51, 50, 213, 107, 117, 20, 212, 83, 50, 139, 50, 243, 210,
      242, 33, 210, 96, 50, 45, 51, 39, 181, 24, 200, 138, 86, 135, 40, 142, 133, 168,
      2, 11, 197, 214, 214, 214, 2, 0, 93, 154, 40, 29, 80, 0, 0, 0]"

definition gz_extra_stripped :: bytes where
  "gz_extra_stripped =
     [31, 139, 8, 4, 0, 0, 0, 0, 2, 255, 12, 0, 65, 80, 8, 0, 171, 86, 47, 41, 74, 77,
      85, 183, 82, 168, 86, 79, 212, 79, 210, 43, 169, 40, 1, 178, 147, 212, 51, 50,
      213, 107, 117, 20, 212, 83, 50, 139, 50, 243, 210, 242, 33, 210, 96, 50, 45, 51,
      39, 181, 24, 200, 138, 86, 135, 40, 142, 133, 168, 2, 11, 197, 214, 214, 214, 2,
      0, 93, 154, 40, 29, 80, 0, 0, 0]"

text \<open>
  The libraries at these inputs: \<^verbatim>\<open>gzip.decompress\<close> returns the payload for
  \<open>gz_plain\<close> and for \<open>gz_extra\<close> and raises \<^verbatim>\<open>zlib.error\<close> for
  \<open>gz_extra_stripped\<close> (the length of the extra field then reaches into the
  compressed data); the payload is ASCII and decodes to \<open>sample_text\<close>, which
  evaluates to \<open>sample_doc\<close>. No other input is used below; the tables answer it
  with an error.
\<close>

definition sample_libs :: collab where
  "sample_libs =
     \<lparr>gzip_decompress =
        (\<lambda>z. if z = gz_plain \<or> z = gz_extra then Inr sample_text_bytes
             else if z = gz_extra_stripped then Inl ZlibError
             else Inl BadGzipFile),
      decode = (\<lambda>b. if b = sample_text_bytes then Inr sample_text else Inl UnicodeDecodeError),
      py_eval = (\<lambda>t. if t = sample_text then Inr sample_doc else Inl EvalError),
      o_tmpfile_works = True, tempdir = ''/tmp'', temp_candidates = [''9t4ggqmk'']\<rparr>"

definition empty_world :: world where
  "empty_world =
     \<lparr>nodes = Map.empty, cwd = ''/home/u'', streams = [], temps = [], progress = 0\<rparr>"

definition sample_pack :: asset_pack where
  "sample_pack =
     \<lparr>path = Some (PyStr ''assets.packed''), tree = Some sample_tree,
      dirinfo = Some sample_dirinfo\<rparr>"


text \<open>
  The same archive as a file \<^verbatim>\<open>assets.packed\<close> in the working directory, and as an
  open stream on that file.
\<close>

definition sample_world :: world where
  "sample_world =
     empty_world\<lparr>nodes := [[''assets.packed''] \<mapsto> File (marker @ gz_plain)]\<rparr>"

definition sample_stream :: stream where
  "sample_stream = \<lparr>sname = Some (PyStr ''assets.packed''), sdata = marker @ gz_plain\<rparr>"

text \<open>
  A second archive, whose payload \<^verbatim>\<open>{'tree': 1, 'dirinfo': 2}\<close> has both keys and
  the shape of neither: \<open>gz_shapeless\<close> is what \<^verbatim>\<open>gzip.compress\<close> makes of it.
\<close>

definition shapeless_text :: string where
  "shapeless_text =
     ''{'' @ [CHR 0x27] @ ''tree'' @ [CHR 0x27] @ '': 1, '' @ [CHR 0x27] @ ''dirinfo'' @ [CHR 0x27] @
     '': 2}''"

definition shapeless_text_bytes :: bytes where
  "shapeless_text_bytes =
     [123, 39, 116, 114, 101, 101, 39, 58, 32, 49, 44, 32, 39, 100, 105, 114, 105, 110, 102,
      111, 39, 58, 32, 50, 125]"

definition shapeless_doc :: pyval where
  "shapeless_doc = PyDict [(PyStr ''tree'', PyInt 1), (PyStr ''dirinfo'', PyInt 2)]"

definition gz_shapeless :: bytes where
  "gz_shapeless =
     [31, 139, 8, 0, 0, 0, 0, 0, 2, 3, 171, 86, 47, 41, 74, 77, 85, 183, 82, 48, 212, 81, 80,
      79, 201, 44, 202, 204, 75, 203, 7, 242, 140, 106, 1, 102, 88, 186, 54, 25, 0, 0, 0]"

definition shapeless_libs :: collab where
  "shapeless_libs =
     \<lparr>gzip_decompress =
        (\<lambda>z. if z = gz_shapeless then Inr shapeless_text_bytes else Inl BadGzipFile),
      decode =
        (\<lambda>b. if b = shapeless_text_bytes then Inr shapeless_text else Inl UnicodeDecodeError),
      py_eval = (\<lambda>t. if t = shapeless_text then Inr shapeless_doc else Inl EvalError),
      o_tmpfile_works = True, tempdir = ''/tmp'', temp_candidates = [''9t4ggqmk'']\<rparr>"

definition shapeless_stream :: stream where
  "shapeless_stream = \<lparr>sname = Some (PyStr ''assets.packed''), sdata = marker @ gz_shapeless\<rparr>"









section \<open>The concrete archive, evaluated\<close>

lemma replace_sample_plain: "replace (marker @ gz_plain) marker [] = gz_plain"
  by (simp add: marker_def gz_plain_def)

lemma replace_sample_extra: "replace (marker @ gz_extra) marker [] = gz_extra_stripped"
  by (simp add: marker_def gz_extra_def gz_extra_stripped_def)

lemma replace_sample_shapeless: "replace (marker @ gz_shapeless) marker [] = gz_shapeless"
  by (simp add: marker_def gz_shapeless_def)

lemma gz_distinct: "gz_extra_stripped \<noteq> gz_plain" "gz_extra_stripped \<noteq> gz_extra"
  by (simp_all add: gz_plain_def gz_extra_def gz_extra_stripped_def)

lemma sample_eval:
  "getitem sample_doc ''tree'' = Inr sample_tree"
  "getitem sample_doc ''dirinfo'' = Inr sample_dirinfo"
  by (simp_all add: sample_doc_def)

lemma init_sample_stream:
  "init sample_libs w (FStream sample_stream) self =
     (self\<lparr>path := Some (PyStr ''assets.packed''), tree := Some sample_tree,
           dirinfo := Some sample_dirinfo\<rparr>, None)"
  by (simp add: init_def read_file_arg_def sample_stream_def replace_sample_plain
      sample_libs_def sample_eval)

section \<open>The header\<close>

text \<open>
  C2 (header gate). When the bytes read from the source do not start with the
  marker, construction fails with \<^verbatim>\<open>MissingHeaderException\<close>, and it does so whatever
  the libraries are: the outcome does not depend on \<^verbatim>\<open>gzip.decompress\<close>, which is
  never consulted.
\<close>

theorem header_gate:
  assumes "read_file_arg w file new_object = (self1, Inr content)"
    and "\<not> prefix marker content"
  shows "\<forall>c. init c w file new_object = (self1, Some MissingHeaderException)
            \<and> AssetPack c w file = Inl MissingHeaderException"
  using assms by (simp add: init_def AssetPack_def)

theorem header_gate_witness:
  "read_file_arg empty_world
      (FStream \<lparr>sname = Some (PyStr ''assets.packed''), sdata = gz_plain\<rparr>) new_object
     = (new_object\<lparr>path := Some (PyStr ''assets.packed'')\<rparr>, Inr gz_plain)
   \<and> \<not> prefix marker gz_plain
   \<and> (\<forall>c. AssetPack c empty_world
              (FStream \<lparr>sname = Some (PyStr ''assets.packed''), sdata = gz_plain\<rparr>)
           = Inl MissingHeaderException)"
proof -
  have r: "read_file_arg empty_world
      (FStream \<lparr>sname = Some (PyStr ''assets.packed''), sdata = gz_plain\<rparr>) new_object
     = (new_object\<lparr>path := Some (PyStr ''assets.packed'')\<rparr>, Inr gz_plain)"
    by (simp add: read_file_arg_def)
  have n: "\<not> prefix marker gz_plain"
    by (simp add: marker_def gz_plain_def)
  from header_gate [OF r n] r n show ?thesis by blast
qed


section \<open>Stripping the marker\<close>

lemma marker_first_only: "0 < k \<Longrightarrow> k < 8 \<Longrightarrow> marker ! k \<noteq> marker ! 0"
proof -
  assume "0 < k" "k < 8"
  then have "k = 1 \<or> k = 2 \<or> k = 3 \<or> k = 4 \<or> k = 5 \<or> k = 6 \<or> k = 7" by arith
  then show ?thesis by (auto simp: marker_def)
qed

lemma length_marker: "length marker = 8"
  by (simp add: marker_def)

lemma marker_not_Nil: "marker \<noteq> []"
  by (simp add: marker_def)

lemma replace_Cons_noprefix:
  "old \<noteq> [] \<Longrightarrow> \<not> prefix old (x # xs) \<Longrightarrow> replace (x # xs) old new = x # replace xs old new"
  by simp

lemma replace_at_occurrence:
  "old \<noteq> [] \<Longrightarrow> replace (old @ rest) old new = new @ replace rest old new"
  by (cases old) simp_all

lemma no_straddle:
  assumes clean: "\<not> sublist marker p" and ne: "p \<noteq> []"
  shows "\<not> prefix marker (p @ marker @ rest)"
proof
  assume pre: "prefix marker (p @ marker @ rest)"
  then obtain zs where zs: "p @ marker @ rest = marker @ zs" by (auto simp: prefix_def)
  show False
  proof (cases "length p < 8")
    case True
    from ne have pos: "0 < length p" by simp
    have "marker ! length p = (marker @ zs) ! length p"
      using True by (simp add: nth_append length_marker)
    also have "\<dots> = (p @ marker @ rest) ! length p" using zs by simp
    also have "\<dots> = marker ! 0"
      using marker_not_Nil by (simp add: nth_append)
    finally show False using marker_first_only [OF pos True] by simp
  next
    case False
    then have "length marker \<le> length p" by (simp add: length_marker)
    with pre have "prefix marker p"
      by (metis prefix_length_prefix prefixI)
    then have "sublist marker p" by (auto simp: prefix_def)
    with clean show False by simp
  qed
qed

lemma replace_clean_then_marker:
  "\<not> sublist marker p \<Longrightarrow> replace (p @ marker @ rest) marker [] = p @ replace rest marker []"
proof (induction p)
  case Nil
  show ?case using replace_at_occurrence [OF marker_not_Nil] by simp
next
  case (Cons a p)
  from Cons.prems have tl_clean: "\<not> sublist marker p"
    by (simp add: sublist_Cons_right)
  from Cons.prems have "\<not> prefix marker ((a # p) @ marker @ rest)"
    by (intro no_straddle) simp_all
  then have "\<not> prefix marker (a # (p @ marker @ rest))" by simp
  then have "replace (a # (p @ marker @ rest)) marker [] = a # replace (p @ marker @ rest) marker []"
    by (rule replace_Cons_noprefix [OF marker_not_Nil])
  with Cons.IH [OF tl_clean] show ?case by simp
qed

lemma replace_clean: "\<not> sublist marker p \<Longrightarrow> replace p marker [] = p"
proof (induction p)
  case Nil
  show ?case using marker_not_Nil by simp
next
  case (Cons a p)
  from Cons.prems have "\<not> sublist marker p" "\<not> prefix marker (a # p)"
    by (simp_all add: sublist_Cons_right)
  with Cons.IH show ?case using marker_not_Nil by simp
qed

lemma replace_pieces_from:
  "\<not> sublist marker p \<Longrightarrow> \<forall>q\<in>set ps. \<not> sublist marker q \<Longrightarrow>
   replace (p @ concat (map ((@) marker) ps)) marker [] = p @ concat ps"
proof (induction ps arbitrary: p)
  case Nil
  then show ?case by (simp add: replace_clean)
next
  case (Cons q qs)
  have "replace (p @ marker @ (q @ concat (map ((@) marker) qs))) marker []
      = p @ replace (q @ concat (map ((@) marker) qs)) marker []"
    using Cons.prems(1) by (rule replace_clean_then_marker)
  also have "replace (q @ concat (map ((@) marker) qs)) marker [] = q @ concat qs"
    using Cons.prems(2) by (intro Cons.IH) simp_all
  finally show ?case by simp
qed

lemma pieces_exist:
  "\<exists>p ps. content = p @ concat (map ((@) marker) ps) \<and> \<not> sublist marker p
      \<and> (\<forall>q\<in>set ps. \<not> sublist marker q)"
proof (induction content rule: length_induct)
  case (1 content)
  show ?case
  proof (cases "sublist marker content")
    case False
    then have "content = content @ concat (map ((@) marker) []) \<and> \<not> sublist marker content
        \<and> (\<forall>q\<in>set []. \<not> sublist marker q)" by simp
    then show ?thesis by (rule_tac x = content in exI, rule_tac x = "[]" in exI)
  next
    case True
    then obtain a b where ab: "content = a @ marker @ b" by (auto simp: sublist_def)
    then have la: "length a < length content" and lb: "length b < length content"
      by (simp_all add: length_marker)
    from 1 la obtain p ps where
      a: "a = p @ concat (map ((@) marker) ps)" "\<not> sublist marker p"
         "\<forall>x\<in>set ps. \<not> sublist marker x"
      by meson
    from 1 lb obtain q qs where
      b: "b = q @ concat (map ((@) marker) qs)" "\<not> sublist marker q"
         "\<forall>x\<in>set qs. \<not> sublist marker x"
      by meson
    have "content = p @ concat (map ((@) marker) (ps @ q # qs))"
      using ab a(1) b(1) by simp
    moreover have "\<forall>x\<in>set (ps @ q # qs). \<not> sublist marker x"
      using a(3) b(2,3) by auto
    ultimately have "content = p @ concat (map ((@) marker) (ps @ q # qs))
        \<and> \<not> sublist marker p \<and> (\<forall>x\<in>set (ps @ q # qs). \<not> sublist marker x)"
      using a(2) by simp
    then show ?thesis by (rule_tac x = p in exI, rule_tac x = "ps @ q # qs" in exI)
  qed
qed

lemma pieces_of_headed:
  assumes "prefix marker content"
  shows "\<exists>ps. content = concat (map ((@) marker) ps) \<and> (\<forall>q\<in>set ps. \<not> sublist marker q)"
proof -
  from pieces_exist [of content] obtain p ps where
    c: "content = p @ concat (map ((@) marker) ps)" and p: "\<not> sublist marker p"
    and ps: "\<forall>q\<in>set ps. \<not> sublist marker q" by blast
  have "p = []"
  proof (rule ccontr)
    assume ne: "p \<noteq> []"
    show False
    proof (cases ps)
      case Nil
      with c assms have "prefix marker p" by simp
      then have "sublist marker p" by (auto simp: prefix_def)
      with p show False by simp
    next
      case (Cons q qs)
      with c have "content = p @ marker @ (q @ concat (map ((@) marker) qs))" by simp
      with assms have "prefix marker (p @ marker @ (q @ concat (map ((@) marker) qs)))"
        by simp
      with no_straddle [OF p ne] show False by simp
    qed
  qed
  with c ps show ?thesis by auto
qed

text \<open>
  C3 (marker stripping). A buffer that starts with the marker is a sequence of
  pieces, each behind one occurrence of the marker and none containing it; what
  \<^verbatim>\<open>replace\<close> hands on is the pieces without any of the occurrences, and that is
  the argument of \<^verbatim>\<open>gzip.decompress\<close>: an error the library raises at that argument is
  the outcome of construction, and two libraries that agree at that argument give the
  same outcome.
\<close>

theorem marker_stripping:
  assumes "read_file_arg w file self = (self1, Inr content)"
    and "prefix marker content"
  shows "\<exists>ps. content = concat (map ((@) marker) ps)
           \<and> (\<forall>q\<in>set ps. \<not> sublist marker q)
           \<and> replace content marker [] = concat ps
           \<and> (\<forall>c e. gzip_decompress c (concat ps) = Inl e \<longrightarrow> init c w file self = (self1, Some e))
           \<and> (\<forall>c c'. gzip_decompress c (concat ps) = gzip_decompress c' (concat ps)
                  \<and> decode c = decode c' \<and> py_eval c = py_eval c'
                \<longrightarrow> init c w file self = init c' w file self)"
proof -
  from pieces_of_headed [OF assms(2)] obtain ps where
    c: "content = concat (map ((@) marker) ps)" and ps: "\<forall>q\<in>set ps. \<not> sublist marker q"
    by blast
  have r: "replace content marker [] = concat ps"
    using replace_pieces_from [of "[]" ps] ps c marker_not_Nil by simp
  have fail: "\<forall>c e. gzip_decompress c (concat ps) = Inl e \<longrightarrow> init c w file self = (self1, Some e)"
    using assms r by (simp add: init_def)
  have same: "\<forall>c c'. gzip_decompress c (concat ps) = gzip_decompress c' (concat ps)
                  \<and> decode c = decode c' \<and> py_eval c = py_eval c'
                \<longrightarrow> init c w file self = init c' w file self"
    using assms r by (auto simp: init_def split: sum.splits)
  from c ps r fail same show ?thesis by blast
qed


theorem marker_stripping_witness:
  "read_file_arg empty_world
       (FStream \<lparr>sname = Some (PyStr ''assets.packed''), sdata = marker @ gz_extra\<rparr>) new_object
     = (new_object\<lparr>path := Some (PyStr ''assets.packed'')\<rparr>, Inr (marker @ gz_extra))
   \<and> prefix marker (marker @ gz_extra)
   \<and> (\<exists>ps. marker @ gz_extra = concat (map ((@) marker) ps)
           \<and> replace (marker @ gz_extra) marker [] = concat ps
           \<and> concat ps = gz_extra_stripped)"
proof -
  have r: "read_file_arg empty_world
       (FStream \<lparr>sname = Some (PyStr ''assets.packed''), sdata = marker @ gz_extra\<rparr>) new_object
     = (new_object\<lparr>path := Some (PyStr ''assets.packed'')\<rparr>, Inr (marker @ gz_extra))"
    by (simp add: read_file_arg_def)
  have p: "prefix marker (marker @ gz_extra)" by simp
  from marker_stripping [OF r p] obtain ps where
    "marker @ gz_extra = concat (map ((@) marker) ps)"
    "replace (marker @ gz_extra) marker [] = concat ps" by blast
  with replace_sample_extra r p show ?thesis by metis
qed


section \<open>The payload's two keys\<close>

lemma getitem_error: "getitem v k = Inl e \<Longrightarrow> e = KeyError k \<or> e = TypeError"
  by (cases v) (auto split: option.splits)

lemma getitem_TypeError: "(\<And>d. v \<noteq> PyDict d) \<Longrightarrow> getitem v k = Inl TypeError"
  by (cases v) auto

text \<open>
  C4 (deserialization validation), as amended. When the payload has been
  decompressed, decoded and evaluated to a value \<open>v\<close>, construction fails exactly when
  \<^verbatim>\<open>v['tree']\<close> or \<^verbatim>\<open>v['dirinfo']\<close> fails: with \<^verbatim>\<open>KeyError\<close> when \<open>v\<close> is a mapping
  without the key, with \<^verbatim>\<open>TypeError\<close> when \<open>v\<close> is no mapping. When both keys are
  there, construction succeeds and stores the two values as they are, whatever
  their shape.
\<close>

theorem payload_keys:
  assumes "read_file_arg w file new_object = (self1, Inr content)"
    and "prefix marker content"
    and "gzip_decompress c (replace content marker []) = Inr raw"
    and "decode c raw = Inr txt"
    and "py_eval c txt = Inr v"
  shows "(\<forall>e. getitem v ''tree'' = Inl e \<longrightarrow>
            AssetPack c w file = Inl e \<and> (e = KeyError ''tree'' \<or> e = TypeError))
       \<and> (\<forall>t e. getitem v ''tree'' = Inr t \<and> getitem v ''dirinfo'' = Inl e \<longrightarrow>
            AssetPack c w file = Inl e \<and> (e = KeyError ''dirinfo'' \<or> e = TypeError))
       \<and> (\<forall>t d. getitem v ''tree'' = Inr t \<and> getitem v ''dirinfo'' = Inr d \<longrightarrow>
            AssetPack c w file = Inr (self1\<lparr>tree := Some t, dirinfo := Some d\<rparr>))"
  using assms by (auto simp: init_def AssetPack_def dest: getitem_error)

lemma init_shapeless_stream:
  "init shapeless_libs w (FStream shapeless_stream) self =
     (self\<lparr>path := Some (PyStr ''assets.packed''), tree := Some (PyInt 1), dirinfo := Some (PyInt 2)\<rparr>, None)"
  by (simp add: init_def read_file_arg_def shapeless_stream_def replace_sample_shapeless
      shapeless_libs_def shapeless_doc_def)

text \<open>
  The claim as stated fails: the payload \<^verbatim>\<open>{'tree': 1, 'dirinfo': 2}\<close> has both keys
  with the wrong shape, and construction succeeds.
\<close>

theorem payload_shape_counterexample:
  "gzip_decompress shapeless_libs (replace (sdata shapeless_stream) marker []) = Inr shapeless_text_bytes
   \<and> decode shapeless_libs shapeless_text_bytes = Inr shapeless_text
   \<and> py_eval shapeless_libs shapeless_text = Inr (PyDict [(PyStr ''tree'', PyInt 1), (PyStr ''dirinfo'', PyInt 2)])
   \<and> AssetPack shapeless_libs empty_world (FStream shapeless_stream)
       = Inr \<lparr>path = Some (PyStr ''assets.packed''), tree = Some (PyInt 1), dirinfo = Some (PyInt 2)\<rparr>"
proof -
  have "gzip_decompress shapeless_libs (replace (sdata shapeless_stream) marker [])
      = Inr shapeless_text_bytes"
    by (simp add: shapeless_stream_def replace_sample_shapeless shapeless_libs_def)
  moreover have "decode shapeless_libs shapeless_text_bytes = Inr shapeless_text"
    by (simp add: shapeless_libs_def)
  moreover have "py_eval shapeless_libs shapeless_text
      = Inr (PyDict [(PyStr ''tree'', PyInt 1), (PyStr ''dirinfo'', PyInt 2)])"
    by (simp add: shapeless_libs_def shapeless_doc_def)
  moreover have "AssetPack shapeless_libs empty_world (FStream shapeless_stream)
       = Inr \<lparr>path = Some (PyStr ''assets.packed''), tree = Some (PyInt 1), dirinfo = Some (PyInt 2)\<rparr>"
    by (simp add: AssetPack_def init_shapeless_stream new_object_def)
  ultimately show ?thesis by blast
qed

theorem payload_keys_witness:
  "AssetPack (sample_libs\<lparr>py_eval := (\<lambda>t. Inr (PyDict [(PyStr ''tree'', PyDict [])]))\<rparr>) empty_world
      (FStream sample_stream) = Inl (KeyError ''dirinfo'')
   \<and> AssetPack (sample_libs\<lparr>py_eval := (\<lambda>t. Inr (PyList []))\<rparr>) empty_world
      (FStream sample_stream) = Inl TypeError
   \<and> AssetPack sample_libs empty_world (FStream sample_stream) = Inr sample_pack"
proof -
  let ?self1 = "new_object\<lparr>path := Some (PyStr ''assets.packed'')\<rparr>"
  have r: "read_file_arg empty_world (FStream sample_stream) new_object
      = (?self1, Inr (marker @ gz_plain))"
    by (simp add: read_file_arg_def sample_stream_def)
  have p: "prefix marker (marker @ gz_plain)" by simp
  have g: "\<And>f. gzip_decompress (sample_libs\<lparr>py_eval := f\<rparr>) (replace (marker @ gz_plain) marker [])
      = Inr sample_text_bytes"
    by (simp add: replace_sample_plain sample_libs_def)
  have d: "\<And>f. decode (sample_libs\<lparr>py_eval := f\<rparr>) sample_text_bytes = Inr sample_text"
    by (simp add: sample_libs_def)
  have e1: "py_eval (sample_libs\<lparr>py_eval := (\<lambda>t. Inr (PyDict [(PyStr ''tree'', PyDict [])]))\<rparr>) sample_text
      = Inr (PyDict [(PyStr ''tree'', PyDict [])])" by simp
  have e2: "py_eval (sample_libs\<lparr>py_eval := (\<lambda>t. Inr (PyList []))\<rparr>) sample_text = Inr (PyList [])"
    by simp
  have e3: "py_eval (sample_libs\<lparr>py_eval := py_eval sample_libs\<rparr>) sample_text = Inr sample_doc"
    by (simp add: sample_libs_def)
  have s: "sample_libs\<lparr>py_eval := py_eval sample_libs\<rparr> = sample_libs" by simp
  have "AssetPack (sample_libs\<lparr>py_eval := (\<lambda>t. Inr (PyDict [(PyStr ''tree'', PyDict [])]))\<rparr>)
      empty_world (FStream sample_stream) = Inl (KeyError ''dirinfo'')"
    using payload_keys [OF r p g d e1] by simp
  moreover have "AssetPack (sample_libs\<lparr>py_eval := (\<lambda>t. Inr (PyList []))\<rparr>) empty_world
      (FStream sample_stream) = Inl TypeError"
    using payload_keys [OF r p g d e2] by simp
  moreover have "AssetPack sample_libs empty_world (FStream sample_stream) = Inr sample_pack"
    using payload_keys [OF r p g d e3] s
    by (simp add: sample_eval sample_pack_def new_object_def)
  ultimately show ?thesis by blast
qed

section \<open>Looking an asset up\<close>

text \<open>
  C5 (getfile). For a key of \<^verbatim>\<open>tree\<close> that holds bytes \<open>b\<close>, \<^verbatim>\<open>getfile\<close> returns the
  handle of a stream that did not exist before (its index is the number of streams
  so far), over \<open>b\<close> with the cursor at 0; the streams that existed, the filesystem
  and the temporary files are untouched. Reading it yields \<open>b\<close> and moves only its own
  cursor: the streams that existed before are still as they were, and a second
  \<^verbatim>\<open>getfile\<close> gives another stream that again yields all of \<open>b\<close>. For a key absent
  from the mapping \<^verbatim>\<open>tree\<close>, \<^verbatim>\<open>getfile\<close> raises \<^verbatim>\<open>KeyError\<close> (the lookup failure that the
  specification calls FileNotFound).
\<close>

theorem getfile_contract:
  assumes "tree self = Some t"
  shows "(\<forall>b. getitem t k = Inr (PyBytes b) \<longrightarrow>
            (\<exists>w1 w2 w3 w4.
               getfile self k w = Inr (length (streams w), w1)
             \<and> streams w1 = streams w @ [\<lparr>buf = b, pos = 0\<rparr>]
             \<and> nodes w1 = nodes w \<and> temps w1 = temps w
             \<and> stream_read (length (streams w)) w1 = Inr (b, w2)
             \<and> take (length (streams w)) (streams w2) = streams w
             \<and> getfile self k w2 = Inr (Suc (length (streams w)), w3)
             \<and> stream_read (Suc (length (streams w))) w3 = Inr (b, w4)))
       \<and> (\<forall>d. t = PyDict d \<and> map_of d (PyStr k) = None \<longrightarrow>
            getfile self k w = Inl (KeyError k))"
  using assms
  by (auto simp: getfile_def BytesIO_def stream_read_def Let_def nth_append)

theorem getfile_contract_witness:
  "tree sample_pack = Some sample_tree
   \<and> getitem sample_tree ''a/b.txt'' = Inr (PyBytes [0x68, 0x69])
   \<and> (\<exists>w1 w2. getfile sample_pack ''a/b.txt'' empty_world = Inr (0, w1)
        \<and> stream_read 0 w1 = Inr ([0x68, 0x69], w2))
   \<and> getfile sample_pack ''a/c.txt'' empty_world = Inl (KeyError ''a/c.txt'')"
proof -
  have t: "tree sample_pack = Some sample_tree" by (simp add: sample_pack_def)
  have g: "getitem sample_tree ''a/b.txt'' = Inr (PyBytes [0x68, 0x69])"
    by (simp add: sample_tree_def)
  have m: "sample_tree = PyDict [(PyStr ''a/b.txt'', PyBytes [0x68, 0x69])]
      \<and> map_of [(PyStr ''a/b.txt'', PyBytes [0x68, 0x69])] (PyStr ''a/c.txt'') = None"
    by (simp add: sample_tree_def)
  have l: "length (streams empty_world) = 0" by (simp add: empty_world_def)
  from getfile_contract [OF t, of "''a/b.txt''" empty_world] g l
  have 1: "\<exists>w1 w2. getfile sample_pack ''a/b.txt'' empty_world = Inr (0, w1)
        \<and> stream_read 0 w1 = Inr ([0x68, 0x69], w2)" by fastforce
  from getfile_contract [OF t, of "''a/c.txt''" empty_world] m
  have 2: "getfile sample_pack ''a/c.txt'' empty_world = Inl (KeyError ''a/c.txt'')" by blast
  from t g 1 2 show ?thesis by blast
qed


section \<open>Reloading\<close>

lemma init_path_success:
  assumes "init c w (FPath p) new_object = (fresh, None)"
  shows "init c w (FPath p) self = (fresh, None)"
  using assms
  by (auto simp: init_def read_file_arg_def new_object_def split: sum.splits if_splits)

lemma init_path_failure:
  assumes "init c w (FPath p) new_object = (x, Some e)"
  shows "snd (init c w (FPath p) self) = Some e"
  using assms
  by (auto simp: init_def read_file_arg_def new_object_def split: sum.splits if_splits)

lemma init_stream_path:
  "init c w (FStream s) new_object = (obj, None) \<Longrightarrow> path obj = sname s"
  by (auto simp: init_def read_file_arg_def new_object_def split: sum.splits if_splits option.splits)

lemma reload_str: "path self = Some (PyStr p) \<Longrightarrow> reload self c w = init c w (FPath p) self"
  by (simp add: reload_def)

lemma reload_fresh:
  assumes "path self = Some (PyStr p)" and "AssetPack c w (FPath p) = Inr fresh"
  shows "reload self c w = (fresh, None)"
proof -
  from assms(2) have "init c w (FPath p) new_object = (fresh, None)"
    by (simp add: AssetPack_def split: prod.splits option.splits)
  then have "init c w (FPath p) self = (fresh, None)" by (rule init_path_success)
  with assms(1) show ?thesis by (simp add: reload_str)
qed

lemma reload_fails:
  assumes "path self = Some (PyStr p)" and "AssetPack c w (FPath p) = Inl e"
  shows "snd (reload self c w) = Some e"
proof -
  from assms(2) obtain x where "init c w (FPath p) new_object = (x, Some e)"
    by (cases "init c w (FPath p) new_object") (auto simp: AssetPack_def split: option.splits)
  then have "snd (init c w (FPath p) self) = Some e" by (rule init_path_failure)
  with assms(1) show ?thesis by (simp add: reload_str)
qed

lemma reload_not_str:
  assumes "path self = Some v" and "\<forall>p. v \<noteq> PyStr p"
  shows "reload self c w = (self, Some (AttributeError ''read''))"
proof (cases v)
  case (PyStr p)
  with assms(2) show ?thesis by simp
qed (use assms(1) in \<open>simp_all add: reload_def init_def read_file_arg_def\<close>)

lemma stream_name_retained:
  assumes "AssetPack c w (FStream s) = Inr obj"
  shows "path obj = sname s"
proof -
  from assms have "init c w (FStream s) new_object = (obj, None)"
    by (simp add: AssetPack_def split: prod.splits option.splits)
  then show ?thesis by (rule init_stream_path)
qed

text \<open>
  C7 (reload), as amended. \<^verbatim>\<open>reload\<close> runs \<^verbatim>\<open>__init__\<close> again on the retained name.
  When the name is a string it is opened as a path: if construction from that path
  succeeds, the object after \<^verbatim>\<open>reload\<close> is the freshly constructed one (nothing of
  the old \<^verbatim>\<open>tree\<close> and \<^verbatim>\<open>dirinfo\<close> is left), and if it fails \<^verbatim>\<open>reload\<close> fails with the
  same error. When the name is not a string, \<^verbatim>\<open>reload\<close> fails with \<^verbatim>\<open>AttributeError\<close>
  and leaves the object as it was. An object constructed from a stream retains the
  stream's \<^verbatim>\<open>name\<close>, so it reloads like any other.
\<close>

theorem reload_reruns:
  assumes "path self = Some v"
  shows "(\<forall>p. v = PyStr p \<longrightarrow>
            reload self c w = init c w (FPath p) self
          \<and> (\<forall>fresh. AssetPack c w (FPath p) = Inr fresh \<longrightarrow> reload self c w = (fresh, None))
          \<and> (\<forall>e. AssetPack c w (FPath p) = Inl e \<longrightarrow> snd (reload self c w) = Some e))
       \<and> ((\<forall>p. v \<noteq> PyStr p) \<longrightarrow> reload self c w = (self, Some (AttributeError ''read'')))
       \<and> (\<forall>s obj. AssetPack c w (FStream s) = Inr obj \<longrightarrow> path obj = sname s)"
proof (intro conjI allI impI)
  fix p assume "v = PyStr p"
  with assms show "reload self c w = init c w (FPath p) self" by (simp add: reload_str)
next
  fix p fresh assume "v = PyStr p" "AssetPack c w (FPath p) = Inr fresh"
  with assms show "reload self c w = (fresh, None)" by (simp add: reload_fresh)
next
  fix p e assume "v = PyStr p" "AssetPack c w (FPath p) = Inl e"
  with assms show "snd (reload self c w) = Some e" by (simp add: reload_fails)
next
  assume "\<forall>p. v \<noteq> PyStr p"
  with assms show "reload self c w = (self, Some (AttributeError ''read''))"
    by (simp add: reload_not_str)
next
  fix s obj assume "AssetPack c w (FStream s) = Inr obj"
  then show "path obj = sname s" by (rule stream_name_retained)
qed

text \<open>
  The claim as stated fails: a pack constructed from an open stream on the file
  \<^verbatim>\<open>assets.packed\<close> reloads without an error.
\<close>

lemma open_sample: "open_rb sample_world ''assets.packed'' = Inr (marker @ gz_plain)"
  by (simp add: open_rb_def sample_world_def empty_world_def resolve_def is_dir_def
      is_file_def)

lemma init_sample_path:
  "init sample_libs sample_world (FPath ''assets.packed'') self =
     (self\<lparr>path := Some (PyStr ''assets.packed''), tree := Some sample_tree,
           dirinfo := Some sample_dirinfo\<rparr>, None)"
  by (simp add: init_def read_file_arg_def open_sample replace_sample_plain
      sample_libs_def sample_eval)

theorem reload_counterexample:
  "AssetPack sample_libs sample_world (FStream sample_stream) = Inr sample_pack
   \<and> reload sample_pack sample_libs sample_world = (sample_pack, None)"
proof -
  have "AssetPack sample_libs sample_world (FStream sample_stream) = Inr sample_pack"
    by (simp add: AssetPack_def init_sample_stream new_object_def sample_pack_def)
  moreover have "reload sample_pack sample_libs sample_world = (sample_pack, None)"
    by (simp add: reload_def sample_pack_def init_sample_path)
  ultimately show ?thesis by blast
qed

theorem reload_reruns_witness:
  "path sample_pack = Some (PyStr ''assets.packed'')
   \<and> AssetPack sample_libs sample_world (FPath ''assets.packed'') = Inr sample_pack
   \<and> reload sample_pack sample_libs sample_world = (sample_pack, None)
   \<and> path (sample_pack\<lparr>path := Some (PyInt 3)\<rparr>) = Some (PyInt 3)
   \<and> reload (sample_pack\<lparr>path := Some (PyInt 3)\<rparr>) sample_libs sample_world
        = (sample_pack\<lparr>path := Some (PyInt 3)\<rparr>, Some (AttributeError ''read''))"
proof -
  have p: "path sample_pack = Some (PyStr ''assets.packed'')" by (simp add: sample_pack_def)
  have f: "AssetPack sample_libs sample_world (FPath ''assets.packed'') = Inr sample_pack"
    by (simp add: AssetPack_def init_sample_path new_object_def sample_pack_def)
  have q: "path (sample_pack\<lparr>path := Some (PyInt 3)\<rparr>) = Some (PyInt 3)" by simp
  from reload_reruns [OF p, of sample_libs sample_world] f
  have 1: "reload sample_pack sample_libs sample_world = (sample_pack, None)" by blast
  from reload_reruns [OF q, of sample_libs sample_world]
  have 2: "reload (sample_pack\<lparr>path := Some (PyInt 3)\<rparr>) sample_libs sample_world
        = (sample_pack\<lparr>path := Some (PyInt 3)\<rparr>, Some (AttributeError ''read''))" by blast
  from p f 1 q 2 show ?thesis by blast
qed

section \<open>Temporary files for assets without an extension\<close>

lemma str_split_absent: "c \<notin> set p \<Longrightarrow> str_split c p = [p]"
  by (induction p) auto











section \<open>The round trip\<close>

text \<open>
  C1 (round trip) at a failing input. \<open>gz_extra\<close> is a gzip stream of the payload:
  the library decompresses it to \<open>sample_text_bytes\<close>, which decodes and evaluates
  to \<open>sample_doc\<close>. The archive made of the marker and \<open>gz_extra\<close> cannot be
  constructed: the marker inside the stream is stripped with the header, and the
  library refuses what is left.
\<close>

theorem round_trip_failing_input:
  "gzip_decompress sample_libs gz_extra = Inr sample_text_bytes
   \<and> decode sample_libs sample_text_bytes = Inr sample_text
   \<and> py_eval sample_libs sample_text = Inr sample_doc
   \<and> AssetPack sample_libs empty_world
        (FStream \<lparr>sname = Some (PyStr ''assets.packed''), sdata = marker @ gz_extra\<rparr>)
      = Inl ZlibError"
proof -
  have 1: "gzip_decompress sample_libs gz_extra = Inr sample_text_bytes"
    by (simp add: sample_libs_def)
  have 2: "decode sample_libs sample_text_bytes = Inr sample_text"
    by (simp add: sample_libs_def)
  have 3: "py_eval sample_libs sample_text = Inr sample_doc"
    by (simp add: sample_libs_def)
  have z: "gzip_decompress sample_libs gz_extra_stripped = Inl ZlibError"
    using gz_distinct by (simp add: sample_libs_def)
  have 4: "AssetPack sample_libs empty_world
        (FStream \<lparr>sname = Some (PyStr ''assets.packed''), sdata = marker @ gz_extra\<rparr>)
      = Inl ZlibError"
    by (simp add: AssetPack_def init_def read_file_arg_def replace_sample_extra z)
  from 1 2 3 4 show ?thesis by blast
qed

text \<open>
  When the compressed stream does not contain the marker, the round trip holds:
  the keys of \<^verbatim>\<open>tree\<close> and \<^verbatim>\<open>dirinfo\<close> are listed as they are, and \<^verbatim>\<open>getfile\<close> gives a
  stream over the bytes stored for a key.
\<close>

lemma round_trip_clean:
  assumes clean: "\<not> sublist marker z"
    and gz: "gzip_decompress c z = Inr raw"
    and dec: "decode c raw = Inr txt"
    and ev: "py_eval c txt = Inr (PyDict [(PyStr ''tree'', PyDict t), (PyStr ''dirinfo'', PyDict d)])"
  shows "\<exists>obj. AssetPack c w (FStream \<lparr>sname = Some n, sdata = marker @ z\<rparr>) = Inr obj
           \<and> listobjects obj = Inr (map fst t)
           \<and> getDirList obj = Inr (map fst d)
           \<and> (\<forall>k b w'. map_of t (PyStr k) = Some (PyBytes b) \<longrightarrow>
                 getfile obj k w' = Inr (length (streams w'),
                    w'\<lparr>streams := streams w' @ [\<lparr>buf = b, pos = 0\<rparr>]\<rparr>))"
proof -
  have r: "replace (marker @ z) marker [] = z"
    using replace_clean_then_marker [of "[]" z] replace_clean [OF clean] marker_not_Nil by simp
  have "AssetPack c w (FStream \<lparr>sname = Some n, sdata = marker @ z\<rparr>)
      = Inr \<lparr>path = Some n, tree = Some (PyDict t), dirinfo = Some (PyDict d)\<rparr>"
    by (simp add: AssetPack_def init_def read_file_arg_def r gz dec ev new_object_def)
  then show ?thesis
    by (simp add: listobjects_def getDirList_def getfile_def BytesIO_def)
qed

section \<open>The emulator's path\<close>

lemma str_split_append_sep:
  "c \<notin> set a \<Longrightarrow> str_split c (a @ c # r) = a # str_split c r"
  by (induction a) auto

lemma sep_join_Cons: "sep_join (x # xs) = x @ concat (map ((#) CHR ''/'') xs)"
  by (induction xs arbitrary: x) auto

lemma sep_join_append:
  "xs \<noteq> [] \<Longrightarrow> ys \<noteq> [] \<Longrightarrow> sep_join (xs @ ys) = sep_join xs @ ''/'' @ sep_join ys"
  by (cases xs; cases ys) (simp_all add: sep_join_Cons)

lemma str_split_sep_join:
  "xs \<noteq> [] \<Longrightarrow> \<forall>x\<in>set xs. CHR ''/'' \<notin> set x \<Longrightarrow> str_split CHR ''/'' (sep_join xs) = xs"
proof (induction xs rule: sep_join.induct)
  case 1
  then show ?case by simp
next
  case (2 x)
  then show ?case by (simp add: str_split_absent)
next
  case (3 x y zs)
  then show ?case using str_split_append_sep [of "CHR ''/''" x "sep_join (y # zs)"] by simp
qed

lemma foldl_join_step:
  assumes "a \<noteq> []" "last a \<noteq> CHR ''/''"
    and "\<forall>b\<in>set bs. b \<noteq> [] \<and> CHR ''/'' \<notin> set b"
  shows "foldl join_step a bs = a @ concat (map ((#) CHR ''/'') bs)"
  using assms
proof (induction bs arbitrary: a)
  case Nil
  then show ?case by simp
next
  case (Cons b bs)
  from Cons.prems have b: "b \<noteq> []" "CHR ''/'' \<notin> set b" by simp_all
  then have nb: "\<not> prefix ''/'' b" by (cases b) auto
  from b have lb: "last b \<noteq> CHR ''/''" using last_in_set by metis
  have step: "join_step a b = a @ ''/'' @ b"
    using Cons.prems(1,2) nb by (simp add: join_step_def)
  have "foldl join_step (a @ ''/'' @ b) bs = (a @ ''/'' @ b) @ concat (map ((#) CHR ''/'') bs)"
    using Cons.prems(3) b lb by (intro Cons.IH) simp_all
  with step show ?case by simp
qed

lemma join_names:
  assumes "\<forall>b\<in>set (r # rs). b \<noteq> [] \<and> CHR ''/'' \<notin> set b"
  shows "join r rs = sep_join (r # rs)"
proof -
  from assms have "r \<noteq> []" "CHR ''/'' \<notin> set r" by simp_all
  then have "last r \<noteq> CHR ''/''" using last_in_set by metis
  with assms \<open>r \<noteq> []\<close> show ?thesis
    by (simp add: join_def foldl_join_step sep_join_Cons)
qed


lemma plain_nameD:
  "plain_name s \<Longrightarrow> s \<noteq> [] \<and> s \<noteq> ''.'' \<and> s \<noteq> ''..'' \<and> CHR ''/'' \<notin> set s"
  by (simp add: plain_name_def)

lemma foldl_norm_step_plain:
  "\<forall>x\<in>set xs. plain_name x \<Longrightarrow> foldl (norm_step n) acc xs = acc @ xs"
  by (induction xs arbitrary: acc) (auto simp: norm_step_def plain_name_def)

lemma sep_join_hd:
  "xs \<noteq> [] \<Longrightarrow> \<forall>x\<in>set xs. plain_name x \<Longrightarrow> \<not> prefix ''/'' (sep_join xs)"
  by (cases xs; cases "hd xs") (auto simp: sep_join_Cons plain_name_def)

lemma sep_join_last:
  "xs \<noteq> [] \<Longrightarrow> \<forall>x\<in>set xs. plain_name x \<Longrightarrow>
   sep_join xs \<noteq> [] \<and> last (sep_join xs) \<noteq> CHR ''/''"
proof (induction xs rule: sep_join.induct)
  case 1
  then show ?case by simp
next
  case (2 x)
  then have "x \<noteq> []" "CHR ''/'' \<notin> set x" by (simp_all add: plain_name_def)
  then show ?case using last_in_set by fastforce
next
  case (3 x y zs)
  then show ?case by simp
qed

lemma split_rooted:
  assumes "\<forall>x\<in>set xs. plain_name x"
  shows "filter (\<lambda>x. x \<noteq> []) (str_split CHR ''/'' (CHR ''/'' # sep_join xs)) = xs"
proof (cases xs)
  case Nil
  then show ?thesis by simp
next
  case (Cons y ys)
  with assms have "str_split CHR ''/'' (sep_join xs) = xs"
    by (intro str_split_sep_join) (auto simp: plain_name_def)
  moreover from assms have "filter (\<lambda>x. x \<noteq> []) xs = xs"
    by (intro filter_True) (auto simp: plain_name_def)
  ultimately show ?thesis by simp
qed

lemma initial_slashes_rooted:
  assumes "\<not> prefix ''/'' r"
  shows "(if prefix ''/'' (CHR ''/'' # r)
          then (if prefix ''//'' (CHR ''/'' # r) \<and> \<not> prefix ''///'' (CHR ''/'' # r) then 2 else 1)
          else (0::nat)) = 1"
  using assms by simp

lemma normpath_root: "normpath ''/'' = ''/''"
proof -
  have "foldl (norm_step 1) [] [[], []] = []" by (simp add: norm_step_def)
  then show ?thesis by (simp add: normpath_def)
qed

lemma normpath_rooted:
  assumes "\<forall>x\<in>set xs. plain_name x"
  shows "normpath (CHR ''/'' # sep_join xs) = CHR ''/'' # sep_join xs"
proof (cases xs)
  case Nil
  then show ?thesis using normpath_root by simp
next
  case (Cons y ys)
  then have ne: "xs \<noteq> []" by simp
  have nosep: "\<forall>x\<in>set xs. CHR ''/'' \<notin> set x" using assms plain_nameD by blast
  have sp: "str_split CHR ''/'' (sep_join xs) = xs" by (rule str_split_sep_join [OF ne nosep])
  have np: "\<not> prefix ''/'' (sep_join xs)" by (rule sep_join_hd [OF ne assms])
  have f0: "norm_step 1 [] [] = []" by (simp add: norm_step_def)
  have f: "foldl (norm_step 1) [] ([] # xs) = xs"
    using foldl_norm_step_plain [OF assms, of 1 "[]"] f0 by simp
  have sp': "str_split CHR ''/'' (CHR ''/'' # sep_join xs) = [] # xs"
    using sp by simp
  have "normpath (CHR ''/'' # sep_join xs)
      = (let q = replicate 1 CHR ''/'' @ sep_join xs in if q = [] then ''.'' else q)"
    unfolding normpath_def initial_slashes_rooted [OF np] Let_def sp' f by simp
  then show ?thesis by (simp add: Let_def)
qed

lemma abspath_names:
  assumes cs: "\<forall>x\<in>set cs. plain_name x"
    and xs: "xs \<noteq> []" "\<forall>x\<in>set xs. plain_name x"
  shows "abspath (CHR ''/'' # sep_join cs) (sep_join xs) = CHR ''/'' # sep_join (cs @ xs)"
proof -
  have np: "\<not> prefix ''/'' (sep_join xs)" using sep_join_hd xs by blast
  have j: "join (CHR ''/'' # sep_join cs) [sep_join xs] = CHR ''/'' # sep_join (cs @ xs)"
  proof (cases cs)
    case Nil
    then show ?thesis using np by (simp add: join_def join_step_def)
  next
    case (Cons c cs')
    with cs have l: "sep_join cs \<noteq> [] \<and> last (sep_join cs) \<noteq> CHR ''/''"
      by (intro sep_join_last) simp_all
    from Cons xs(1) have a: "sep_join (cs @ xs) = sep_join cs @ ''/'' @ sep_join xs"
      by (intro sep_join_append) simp_all
    show ?thesis
      using np l unfolding a by (simp add: join_def join_step_def)
  qed
  have "\<forall>x\<in>set (cs @ xs). plain_name x" using cs xs(2) by auto
  then show ?thesis using np j by (simp add: abspath_def normpath_rooted)
qed

lemma lcp_append: "longest_common_prefix (cs @ a) (cs @ b) = cs @ longest_common_prefix a b"
  by (induction cs) auto

lemma relpath_anchor:
  assumes cs: "\<forall>x\<in>set cs. plain_name x"
    and segs: "segs \<noteq> []" "\<forall>x\<in>set segs. plain_name x"
  shows "relpath (CHR ''/'' # sep_join cs) (sep_join (''resources'' # segs)) ''resources''
         = Inr (sep_join segs)"
proof -
  have r: "plain_name ''resources''" by (simp add: plain_name_def)
  have a1: "abspath (CHR ''/'' # sep_join cs) ''resources'' = CHR ''/'' # sep_join (cs @ [''resources''])"
    using abspath_names [OF cs, of "[''resources'']"] r by simp
  have a2: "abspath (CHR ''/'' # sep_join cs) (sep_join (''resources'' # segs))
      = CHR ''/'' # sep_join (cs @ ''resources'' # segs)"
    using abspath_names [OF cs, of "''resources'' # segs"] r segs by simp
  have s1: "filter (\<lambda>x. x \<noteq> []) (str_split CHR ''/'' (CHR ''/'' # sep_join (cs @ [''resources''])))
      = cs @ [''resources'']"
    using cs r by (intro split_rooted) auto
  have s2: "filter (\<lambda>x. x \<noteq> []) (str_split CHR ''/'' (CHR ''/'' # sep_join (cs @ ''resources'' # segs)))
      = cs @ ''resources'' # segs"
    using cs r segs by (intro split_rooted) auto
  have ne: "sep_join (''resources'' # segs) \<noteq> []" by (simp add: sep_join_Cons)
  obtain g gs where g: "segs = g # gs" using segs(1) by (cases segs) auto
  have j: "join g gs = sep_join (g # gs)"
    using segs(2) g by (intro join_names) (auto simp: plain_name_def)
  show ?thesis
    using ne j g unfolding relpath_def a1 a2 s1 s2 Let_def
    by (simp add: lcp_append)
qed

lemma relpath_no_anchor:
  assumes cs: "\<forall>x\<in>set cs. plain_name x"
    and segs: "segs \<noteq> []" "\<forall>x\<in>set segs. plain_name x" "hd segs \<noteq> ''resources''"
  shows "relpath (CHR ''/'' # sep_join cs) (sep_join segs) ''resources''
         = Inr (sep_join (''..'' # segs))"
proof -
  have r: "plain_name ''resources''" by (simp add: plain_name_def)
  have a1: "abspath (CHR ''/'' # sep_join cs) ''resources'' = CHR ''/'' # sep_join (cs @ [''resources''])"
    using abspath_names [OF cs, of "[''resources'']"] r by simp
  have a2: "abspath (CHR ''/'' # sep_join cs) (sep_join segs) = CHR ''/'' # sep_join (cs @ segs)"
    using abspath_names [OF cs segs(1,2)] .
  have s1: "filter (\<lambda>x. x \<noteq> []) (str_split CHR ''/'' (CHR ''/'' # sep_join (cs @ [''resources''])))
      = cs @ [''resources'']"
    using cs r by (intro split_rooted) auto
  have s2: "filter (\<lambda>x. x \<noteq> []) (str_split CHR ''/'' (CHR ''/'' # sep_join (cs @ segs)))
      = cs @ segs"
    using cs segs(2) by (intro split_rooted) auto
  obtain g gs where g: "segs = g # gs" using segs(1) by (cases segs) auto
  with segs(2) have ne: "sep_join segs \<noteq> []" by (auto simp: sep_join_Cons plain_name_def)
  have j: "join ''..'' segs = sep_join (''..'' # segs)"
    using segs(2) by (intro join_names) (auto simp: plain_name_def)
  show ?thesis
    using ne j g segs(3) unfolding relpath_def a1 a2 s1 s2 Let_def
    by (simp add: lcp_append)
qed

text \<open>
  C9 (emulator path), as amended. The working directory is an absolute normalised
  path and the asset path is a sequence of plain names. When the asset path starts
  with \<^verbatim>\<open>resources\<close>, that component is dropped and the rest is joined to the base
  folder. When it does not, the path is not left as it is: \<^verbatim>\<open>..\<close> is put in front of
  it, so it is looked up beside the base folder and not in it.
\<close>

theorem emulator_anchor:
  assumes "cwd w = CHR ''/'' # sep_join cs" and "\<forall>x\<in>set cs. plain_name x"
    and "segs \<noteq> []" and "\<forall>x\<in>set segs. plain_name x"
  shows "emulator_path em w (sep_join (''resources'' # segs)) = Inr (join (basefolder em) segs)
       \<and> (hd segs \<noteq> ''resources'' \<longrightarrow>
            emulator_path em w (sep_join segs) = Inr (join (basefolder em) (''..'' # segs)))"
proof -
  have sp: "str_split CHR ''/'' (sep_join segs) = segs"
    using assms(3,4) by (intro str_split_sep_join) (auto simp: plain_name_def)
  have sp2: "str_split CHR ''/'' (sep_join (''..'' # segs)) = ''..'' # segs"
    using assms(4) by (intro str_split_sep_join) (auto simp: plain_name_def)
  have 1: "emulator_path em w (sep_join (''resources'' # segs)) = Inr (join (basefolder em) segs)"
    using relpath_anchor [OF assms(2,3,4)] sp assms(1) by (simp add: emulator_path_def)
  have 2: "hd segs \<noteq> ''resources'' \<longrightarrow>
            emulator_path em w (sep_join segs) = Inr (join (basefolder em) (''..'' # segs))"
    using relpath_no_anchor [OF assms(2,3,4)] sp2 assms(1) by (simp add: emulator_path_def)
  from 1 2 show ?thesis by blast
qed

text \<open>
  The claim as stated fails: \<^verbatim>\<open>images/a.png\<close> has no anchor and is opened at
  \<^verbatim>\<open>base/../images/a.png\<close>, which is another file than \<^verbatim>\<open>base/images/a.png\<close>.
\<close>

theorem emulator_anchor_counterexample:
  "emulator_path \<lparr>basefolder = ''base''\<rparr> empty_world ''images/a.png'' = Inr ''base/../images/a.png''
   \<and> join ''base'' (str_split CHR ''/'' ''images/a.png'') = ''base/images/a.png''
   \<and> resolve ''base/../images/a.png'' \<noteq> resolve ''base/images/a.png''"
  by (simp add: emulator_path_def relpath_def abspath_def normpath_def norm_step_def
      join_def join_step_def empty_world_def Let_def resolve_def)

theorem emulator_anchor_witness:
  "cwd empty_world = CHR ''/'' # sep_join [''home'', ''u'']
   \<and> emulator_path \<lparr>basefolder = ''base''\<rparr> empty_world ''resources/images/a.png''
       = Inr ''base/images/a.png''
   \<and> emulator_path \<lparr>basefolder = ''base''\<rparr> empty_world ''images/a.png''
       = Inr ''base/../images/a.png''"
proof -
  have c: "cwd empty_world = CHR ''/'' # sep_join [''home'', ''u'']"
    by (simp add: empty_world_def)
  have pc: "\<forall>x\<in>set [''home'', ''u'']. plain_name x" by (simp add: plain_name_def)
  have ne: "[''images'', ''a.png''] \<noteq> []" by simp
  have ps: "\<forall>x\<in>set [''images'', ''a.png'']. plain_name x" by (simp add: plain_name_def)
  from emulator_anchor [OF c pc ne ps, of "\<lparr>basefolder = ''base''\<rparr>"] c
  show ?thesis by (simp add: join_def join_step_def)
qed


section \<open>Extraction: a missing asset\<close>















section \<open>Extraction: completeness\<close>

subsection \<open>makedirs\<close>









subsection \<open>exportfile\<close>




subsection \<open>The loops of extract\<close>























subsection \<open>Destinations of a well-formed archive\<close>












lemma plain_str_iff: "plain_str x \<longleftrightarrow> (\<exists>s. x = PyStr s \<and> plain_name s)"
  by (cases x) simp_all







end
